theory Spec2Isabelle
  imports Main "HOL-Library.Word"
begin

section \<open>Data model of the WebSG scripting host (src/engine/scripting/websg.ts)\<close>

text \<open>
  The host keeps every live resource in a map from resource ids (\<open>eid\<close>) to resource
  objects, and gives each script a set of ids it may use. A reference from one resource
  object to another (\<open>node.parent\<close>, \<open>node.nextSibling\<close>, \<open>scene.firstNode\<close>, ...) is
  represented by the eid of the referenced object, so that \<open>ref.eid\<close> is the reference
  itself and an absent reference (\<open>undefined\<close>) is \<open>None\<close>. Values of 32-bit floats are
  kept as their 32-bit patterns: no operation of this file computes with them.
\<close>

datatype ResourceType =
  Node | Scene | Mesh | MeshPrimitive | Accessor | Buffer | BufferView | Material
  | Texture | Light | Collider | Interactable | UICanvas | UIElement | UIButton | UIText
  | Camera | Skin

record RemoteNode =
  visible :: bool
  isStatic :: bool
  parent :: "nat option"
  parentScene :: "nat option"
  firstChild :: "nat option"
  nextSibling :: "nat option"

record RemoteScene =
  firstNode :: "nat option"

record RemoteMeshPrimitive =
  attributes :: "32 word \<rightharpoonup> nat"
  indices :: "nat option"
  material :: "nat option"
  mode :: "32 word"

record RemoteMesh =
  meshName :: string
  primitives :: "nat list"

datatype MaterialType = Standard | Unlit

record TextureTransform =
  offset :: "32 word list"
  rotation :: "32 word"
  scale :: "32 word list"
  texCoord :: "32 word"

record RemoteMaterial =
  materialType :: MaterialType
  baseColorFactor :: "32 word list"
  baseColorTexture :: "nat option"
  metallicFactor :: "32 word"
  roughnessFactor :: "32 word"
  metallicRoughnessTexture :: "nat option"
  normalTexture :: "nat option"
  normalScale :: "32 word"
  normalTextureTransform :: "TextureTransform option"
  occlusionTexture :: "nat option"
  occlusionTextureStrength :: "32 word"
  emissiveTexture :: "nat option"
  emissiveFactor :: "32 word list"
  alphaMode :: "32 word"
  alphaCutoff :: "32 word"
  doubleSided :: bool
  materialName :: string

record RemoteLight =
  lightType :: int

record RemoteCollider =
  colliderType :: "32 word"
  isTrigger :: bool
  colliderSize :: "32 word list"
  radius :: "32 word"
  height :: "32 word"
  colliderMesh :: "nat option"

record RemoteUIText =
  color :: "32 word list"
  fontSize :: "32 word"

datatype RemoteResource =
  RNode RemoteNode | RScene RemoteScene | RMesh RemoteMesh
  | RMeshPrimitive RemoteMeshPrimitive | RAccessor | RBuffer | RBufferView
  | RMaterial RemoteMaterial | RTexture | RLight RemoteLight | RCollider RemoteCollider
  | RInteractable | RUICanvas | RUIElement | RUIButton | RUIText RemoteUIText
  | RCamera | RSkin

fun resourceType :: "RemoteResource \<Rightarrow> ResourceType" where
  "resourceType (RNode n) = Node"
| "resourceType (RScene s) = Scene"
| "resourceType (RMesh m) = Mesh"
| "resourceType (RMeshPrimitive p) = MeshPrimitive"
| "resourceType RAccessor = Accessor"
| "resourceType RBuffer = Buffer"
| "resourceType RBufferView = BufferView"
| "resourceType (RMaterial m) = Material"
| "resourceType RTexture = Texture"
| "resourceType (RLight l) = Light"
| "resourceType (RCollider c) = Collider"
| "resourceType RInteractable = Interactable"
| "resourceType RUICanvas = UICanvas"
| "resourceType RUIElement = UIElement"
| "resourceType RUIButton = UIButton"
| "resourceType (RUIText t) = UIText"
| "resourceType RCamera = Camera"
| "resourceType RSkin = Skin"

text \<open>
  Modelled from the spec: the cursor view (src/engine/allocator/CursorView) is not part
  of the sources at hand. It is a (buffer, offset) pair; a typed read returns the value
  at the offset and advances the offset by the byte width of the type, and a read that
  does not fit into the buffer raises instead of reading. \<open>buffer p\<close> is the unsigned
  32-bit value stored at byte offset \<open>p\<close>.
\<close>

record CursorView =
  buffer :: "nat \<Rightarrow> 32 word"
  byteLength :: nat
  cursor :: nat

text \<open>
  The script context: \<open>resourceIds\<close> and \<open>resourceMap\<close> are the two fields of
  \<open>wasmCtx.resourceManager\<close> that the ABI reads; \<open>nextEid\<close> is the id allocator;
  \<open>U32Heap\<close> is the guest memory viewed as an array of unsigned 32-bit values, and
  \<open>strings p n\<close> is the UTF-8 text of the \<open>n\<close> bytes of guest memory at \<open>p\<close>.
  The ABI never reads one location through both the cursor view and the heap views
  in one call, so the two views are kept as separate fields.
\<close>

record WASMModuleContext =
  resourceIds :: "nat set"
  resourceMap :: "nat \<rightharpoonup> RemoteResource"
  nextEid :: nat
  cursorView :: CursorView
  U32Heap :: "32 word list"
  strings :: "nat \<Rightarrow> nat \<Rightarrow> string"

section \<open>The access check\<close>

text \<open>
  \<open>getScriptResource\<close> returns \<open>undefined\<close> on three paths, each after its own
  \<open>console.error\<close> line. \<open>getScriptResourceLog\<close> is the same function with the
  path taken kept as a tag; \<open>getScriptResource\<close> is what the caller receives.
\<close>

datatype AccessError = NotAuthorized | NotFound | TypeMismatch

definition getScriptResourceLog ::
  "WASMModuleContext \<Rightarrow> ResourceType \<Rightarrow> nat \<Rightarrow> AccessError + RemoteResource" where
  "getScriptResourceLog wasmCtx rtype resourceId =
     (if resourceId \<notin> resourceIds wasmCtx then Inl NotAuthorized
      else case resourceMap wasmCtx resourceId of
        None \<Rightarrow> Inl NotFound
      | Some resource \<Rightarrow>
          if resourceType resource \<noteq> rtype then Inl TypeMismatch else Inr resource)"

definition getScriptResource ::
  "WASMModuleContext \<Rightarrow> ResourceType \<Rightarrow> nat \<Rightarrow> RemoteResource option" where
  "getScriptResource wasmCtx rtype resourceId =
     (case getScriptResourceLog wasmCtx rtype resourceId of
        Inl e \<Rightarrow> None
      | Inr resource \<Rightarrow> Some resource)"

section \<open>Node accessors\<close>

text \<open>
  An ABI operation takes the script context and its integer arguments and returns its
  result with the context after the call. Resource ids are naturals; other integer
  arguments and results are JavaScript numbers, modelled as \<open>int\<close>.
\<close>

definition node_get_visible :: "WASMModuleContext \<Rightarrow> nat \<Rightarrow> int" where
  "node_get_visible wasmCtx nodeId =
     (case getScriptResource wasmCtx Node nodeId of
        Some (RNode node) \<Rightarrow> if visible node then 1 else 0
      | _ \<Rightarrow> 0)"

definition node_set_visible ::
  "WASMModuleContext \<Rightarrow> nat \<Rightarrow> int \<Rightarrow> int \<times> WASMModuleContext" where
  "node_set_visible wasmCtx nodeId vis =
     (case getScriptResource wasmCtx Node nodeId of
        Some (RNode node) \<Rightarrow>
          (0, wasmCtx\<lparr>resourceMap :=
                (resourceMap wasmCtx)(nodeId \<mapsto> RNode (node\<lparr>visible := (vis \<noteq> 0)\<rparr>))\<rparr>)
      | _ \<Rightarrow> (-1, wasmCtx))"

definition node_get_parent :: "WASMModuleContext \<Rightarrow> nat \<Rightarrow> int" where
  "node_get_parent wasmCtx nodeId =
     (case getScriptResource wasmCtx Node nodeId of
        Some (RNode node) \<Rightarrow>
          (case parent node of
             None \<Rightarrow> 0
           | Some p \<Rightarrow> if p \<notin> resourceIds wasmCtx then 0 else int p)
      | _ \<Rightarrow> 0)"

definition node_get_parent_scene :: "WASMModuleContext \<Rightarrow> nat \<Rightarrow> int" where
  "node_get_parent_scene wasmCtx nodeId =
     (case getScriptResource wasmCtx Node nodeId of
        Some (RNode node) \<Rightarrow>
          (case parentScene node of
             None \<Rightarrow> 0
           | Some p \<Rightarrow> if p \<notin> resourceIds wasmCtx then 0 else int p)
      | _ \<Rightarrow> 0)"

section \<open>Child traversal filtered by the capability set\<close>

text \<open>
  \<open>firstChildOf\<close> is the expression
  \<open>node.resourceType === ResourceType.Node ? node.firstChild : node.firstNode\<close>
  for a parent that is a node or a scene (the type of the parameter admits no other).
  The three loops follow the sibling chain as long as the cursor is an object. The chain
  of a damaged hierarchy can be cyclic, so the loops are partial: \<open>None\<close> is a loop
  that does not return. A cursor whose eid resolves to no node object has no counterpart
  in the source, where the cursor is the object; the loops give \<open>None\<close> there as well.
\<close>

fun firstChildOf :: "RemoteResource \<Rightarrow> nat option" where
  "firstChildOf (RNode node) = firstChild node"
| "firstChildOf (RScene scene) = firstNode scene"
| "firstChildOf other = None"

partial_function (option) getScriptChildCount_loop ::
  "WASMModuleContext \<Rightarrow> nat option \<Rightarrow> int \<Rightarrow> int option" where
  "getScriptChildCount_loop wasmCtx cur count =
     (case cur of
        None \<Rightarrow> Some count
      | Some c \<Rightarrow>
          (case resourceMap wasmCtx c of
             Some (RNode node) \<Rightarrow>
               getScriptChildCount_loop wasmCtx (nextSibling node)
                 (if c \<in> resourceIds wasmCtx then count + 1 else count)
           | _ \<Rightarrow> None))"

definition getScriptChildCount :: "WASMModuleContext \<Rightarrow> RemoteResource \<Rightarrow> int option" where
  "getScriptChildCount wasmCtx node = getScriptChildCount_loop wasmCtx (firstChildOf node) 0"





partial_function (option) scriptGetChildAt_loop ::
  "WASMModuleContext \<Rightarrow> int \<Rightarrow> nat option \<Rightarrow> int \<Rightarrow> (int \<times> nat option) option" where
  "scriptGetChildAt_loop wasmCtx index cur i =
     (case cur of
        None \<Rightarrow> Some (i, None)
      | Some c \<Rightarrow>
          if i < index then
            (case resourceMap wasmCtx c of
               Some (RNode node) \<Rightarrow>
                 scriptGetChildAt_loop wasmCtx index (nextSibling node)
                   (if c \<in> resourceIds wasmCtx then i + 1 else i)
             | _ \<Rightarrow> None)
          else Some (i, Some c))"

definition scriptGetChildAt :: "WASMModuleContext \<Rightarrow> RemoteResource \<Rightarrow> int \<Rightarrow> int option" where
  "scriptGetChildAt wasmCtx parentRes index =
     (case scriptGetChildAt_loop wasmCtx index (firstChildOf parentRes) 0 of
        None \<Rightarrow> None
      | Some (i, cur) \<Rightarrow>
          (case cur of
             None \<Rightarrow> Some 0
           | Some c \<Rightarrow> if i = index \<and> c \<in> resourceIds wasmCtx then Some (int c) else Some 0))"

definition scene_get_node_count :: "WASMModuleContext \<Rightarrow> nat \<Rightarrow> int option" where
  "scene_get_node_count wasmCtx sceneId =
     (case getScriptResource wasmCtx Scene sceneId of
        Some (RScene scene) \<Rightarrow> getScriptChildCount wasmCtx (RScene scene)
      | _ \<Rightarrow> Some (-1))"


definition scene_get_node :: "WASMModuleContext \<Rightarrow> nat \<Rightarrow> int \<Rightarrow> int option" where
  "scene_get_node wasmCtx sceneId index =
     (case getScriptResource wasmCtx Scene sceneId of
        Some (RScene scene) \<Rightarrow> scriptGetChildAt wasmCtx (RScene scene) index
      | _ \<Rightarrow> Some 0)"

definition node_get_child_count :: "WASMModuleContext \<Rightarrow> nat \<Rightarrow> int option" where
  "node_get_child_count wasmCtx nodeId =
     (case getScriptResource wasmCtx Node nodeId of
        Some (RNode node) \<Rightarrow> getScriptChildCount wasmCtx (RNode node)
      | _ \<Rightarrow> Some (-1))"


definition node_get_child :: "WASMModuleContext \<Rightarrow> nat \<Rightarrow> int \<Rightarrow> int option" where
  "node_get_child wasmCtx nodeId index =
     (case getScriptResource wasmCtx Node nodeId of
        Some (RNode node) \<Rightarrow> scriptGetChildAt wasmCtx (RNode node) index
      | _ \<Rightarrow> Some 0)"

text \<open>
  \<open>siblingChain m cur cs\<close>: following \<open>nextSibling\<close> from the reference \<open>cur\<close> in the
  registry \<open>m\<close> visits exactly the nodes \<open>cs\<close>, in this order, and ends. It is the
  condition under which the hierarchy below a parent is a list of children.
\<close>

fun siblingChain :: "(nat \<rightharpoonup> RemoteResource) \<Rightarrow> nat option \<Rightarrow> nat list \<Rightarrow> bool" where
  "siblingChain m cur [] = (cur = None)"
| "siblingChain m cur (c # cs) =
     (cur = Some c \<and>
      (case m c of Some (RNode node) \<Rightarrow> siblingChain m (nextSibling node) cs | _ \<Rightarrow> False))"

definition visibleChildren :: "WASMModuleContext \<Rightarrow> nat list \<Rightarrow> nat list" where
  "visibleChildren wasmCtx cs = filter (\<lambda>c. c \<in> resourceIds wasmCtx) cs"

section \<open>Reading parameter blocks\<close>

text \<open>
  A read through the cursor view either yields a value, or ends the ABI operation that
  runs it with a result (\<open>return -1\<close> in the middle of a decode loop), or raises.
  The cursor view after the step is returned in each case. \<open>throwR\<close> is a step that
  raises: the evaluation of a name that is not declared, or of a pattern that does not
  fit its value.
\<close>

datatype 'a Completion = Value 'a | Return int | Throw

type_synonym 'a reader = "CursorView \<Rightarrow> 'a Completion \<times> CursorView"

definition unitR :: "'a \<Rightarrow> 'a reader" where
  "unitR a cv = (Value a, cv)"

definition returnR :: "int \<Rightarrow> 'a reader" where
  "returnR r cv = (Return r, cv)"

definition throwR :: "'a reader" where
  "throwR cv = (Throw, cv)"

definition bindR :: "'a reader \<Rightarrow> ('a \<Rightarrow> 'b reader) \<Rightarrow> 'b reader" where
  "bindR m f cv =
     (case m cv of
        (Value a, cv') \<Rightarrow> f a cv'
      | (Return r, cv') \<Rightarrow> (Return r, cv')
      | (Throw, cv') \<Rightarrow> (Throw, cv'))"

text \<open>
  Modelled from the spec: \<open>moveCursorView\<close>, \<open>readUint32\<close>, \<open>readFloat32\<close>,
  \<open>readFloat32Array\<close>, \<open>readUint32Array\<close> and \<open>skipUint32\<close> of the cursor view, and
  \<open>readStringFromCursorView\<close> of the module context, which reads a (pointer,
  byteLength) pair and decodes the bytes it names.
\<close>

definition moveCursorView :: "nat \<Rightarrow> unit reader" where
  "moveCursorView p cv = (Value (), cv\<lparr>cursor := p\<rparr>)"

definition readUint32 :: "32 word reader" where
  "readUint32 cv =
     (if cursor cv + 4 \<le> byteLength cv
      then (Value (buffer cv (cursor cv)), cv\<lparr>cursor := cursor cv + 4\<rparr>)
      else (Throw, cv))"

definition readFloat32 :: "32 word reader" where
  "readFloat32 = readUint32"

definition skipUint32 :: "unit reader" where
  "skipUint32 cv = (Value (), cv\<lparr>cursor := cursor cv + 4\<rparr>)"

fun readUint32Array :: "nat \<Rightarrow> 32 word list reader" where
  "readUint32Array 0 = unitR []"
| "readUint32Array (Suc n) =
     bindR readUint32 (\<lambda>x. bindR (readUint32Array n) (\<lambda>xs. unitR (x # xs)))"

definition readFloat32Array :: "nat \<Rightarrow> 32 word list reader" where
  "readFloat32Array = readUint32Array"

definition readStringFromCursorView :: "WASMModuleContext \<Rightarrow> string reader" where
  "readStringFromCursorView wasmCtx =
     bindR readUint32 (\<lambda>ptr. bindR readUint32 (\<lambda>len.
       unitR (strings wasmCtx (unat ptr) (unat len))))"

text \<open>
  \<open>readExtensions\<close>: the loop \<open>for (let i = 0; i < count; i++)\<close> is the recursion on
  the number of items left, with the index \<open>i\<close> counting up. The dictionary
  \<open>extensions\<close> is a map from names to parsed values.
\<close>

fun readExtensions_loop ::
  "WASMModuleContext \<Rightarrow> (WASMModuleContext \<Rightarrow> string \<Rightarrow> 'e reader) \<Rightarrow> nat \<Rightarrow> nat \<Rightarrow> nat \<Rightarrow>
     (string \<rightharpoonup> 'e) \<Rightarrow> (string \<rightharpoonup> 'e) reader" where
  "readExtensions_loop wasmCtx parseExtension itemsPtr 0 i extensions = unitR extensions"
| "readExtensions_loop wasmCtx parseExtension itemsPtr (Suc n) i extensions =
     bindR (moveCursorView (itemsPtr + i * 8)) (\<lambda>_.
     bindR (readStringFromCursorView wasmCtx) (\<lambda>name.
     bindR (parseExtension wasmCtx name) (\<lambda>v.
       readExtensions_loop wasmCtx parseExtension itemsPtr n (i + 1) (extensions(name \<mapsto> v)))))"

definition readExtensions ::
  "WASMModuleContext \<Rightarrow> (WASMModuleContext \<Rightarrow> string \<Rightarrow> 'e reader) \<Rightarrow> (string \<rightharpoonup> 'e) reader" where
  "readExtensions wasmCtx parseExtension =
     bindR readUint32 (\<lambda>itemsPtr. bindR readUint32 (\<lambda>count.
       readExtensions_loop wasmCtx parseExtension (unat itemsPtr) (unat count) 0 Map.empty))"

text \<open>
  The function that skips the extras (lines 240 to 247) has one body under two headers,
  one on each side of an unfinished merge: \<open>readExtras\<close> and \<open>skipExtras\<close>. Both
  names are given that body.
\<close>

definition readExtras :: "unit reader" where
  "readExtras = bindR skipUint32 (\<lambda>_. skipUint32)"

definition skipExtras :: "unit reader" where
  "skipExtras = bindR skipUint32 (\<lambda>_. skipUint32)"

definition readTextureRef :: "WASMModuleContext \<Rightarrow> nat option reader" where
  "readTextureRef wasmCtx =
     bindR readUint32 (\<lambda>textureId.
       unitR (if textureId \<noteq> 0
              then (case getScriptResource wasmCtx Texture (unat textureId) of
                      Some texture \<Rightarrow> Some (unat textureId) | None \<Rightarrow> None)
              else None))"

text \<open>
  \<open>readTextureInfoExtensions\<close> passes a function literal to \<open>readExtensions\<close>: the
  extension \<open>KHR_textures_transform\<close> parses to its four fields and an extension of
  another name to the empty object, here \<open>None\<close>.
\<close>

definition readTextureInfoExtensions ::
  "WASMModuleContext \<Rightarrow> (string \<rightharpoonup> TextureTransform option) reader" where
  "readTextureInfoExtensions wasmCtx =
     readExtensions wasmCtx (\<lambda>wasmCtx name.
       if name = ''KHR_textures_transform''
       then bindR (readFloat32Array 2) (\<lambda>off. bindR readFloat32 (\<lambda>rot.
            bindR (readFloat32Array 2) (\<lambda>sc. bindR readUint32 (\<lambda>tc.
              unitR (Some \<lparr>offset = off, rotation = rot, scale = sc, texCoord = tc\<rparr>)))))
       else unitR None)"

text \<open>
  \<open>readTextureInfo\<close>: the source file holds both sides of an unfinished merge in this
  function, and only the second side (lines 287 to 293) is a well-formed body; it is the
  one followed here. It calls \<open>readTextureRef\<close> and drops the result, skips
  \<open>texCoord\<close>, reads the extensions, skips the extras, and ends with
  \<open>return { texture, extensions }\<close>. No \<open>texture\<close> is declared in the function or in
  the file, so the last statement raises a ReferenceError: every call of
  \<open>readTextureInfo\<close> raises, here or in a read before. The first side ends with
  \<open>return texture\<close> and raises in the same way.
\<close>

definition readTextureInfo :: "WASMModuleContext \<Rightarrow> nat option reader" where
  "readTextureInfo wasmCtx =
     bindR (readTextureRef wasmCtx) (\<lambda>_.
     bindR skipUint32 (\<lambda>_.
     bindR (readTextureInfoExtensions wasmCtx) (\<lambda>extensions.
     bindR skipExtras (\<lambda>_. throwR))))"

definition KHR_textures_transform ::
  "(string \<rightharpoonup> TextureTransform option) \<Rightarrow> TextureTransform option" where
  "KHR_textures_transform extensions =
     (case extensions ''KHR_textures_transform'' of None \<Rightarrow> None | Some t \<Rightarrow> t)"

text \<open>
  \<open>readNormalTextureInfo\<close> and \<open>readOcclusionTextureInfo\<close> pass
  \<open>parseKHRTexturesTransformExtension\<close> to \<open>readExtensions\<close>. The file neither
  defines nor imports this name, so evaluating the argument raises a ReferenceError
  before \<open>readExtensions\<close> is called: the step \<open>throwR\<close> below, whose value, the
  parser, never exists. The statements after it are those of the source.
\<close>

definition readNormalTextureInfo ::
  "WASMModuleContext \<Rightarrow> (nat option \<times> 32 word \<times> TextureTransform option) reader" where
  "readNormalTextureInfo wasmCtx =
     bindR readUint32 (\<lambda>textureId.
     bindR skipUint32 (\<lambda>_.
     bindR readFloat32 (\<lambda>normalScale'.
     bindR throwR (\<lambda>parseKHRTexturesTransformExtension.
     bindR (readExtensions wasmCtx parseKHRTexturesTransformExtension) (\<lambda>extensions.
     bindR readExtras (\<lambda>_.
       unitR (if textureId \<noteq> 0
              then (case getScriptResource wasmCtx Texture (unat textureId) of
                      Some texture \<Rightarrow> Some (unat textureId) | None \<Rightarrow> None)
              else None,
              normalScale', KHR_textures_transform extensions)))))))"

definition readOcclusionTextureInfo ::
  "WASMModuleContext \<Rightarrow> (nat option \<times> 32 word \<times> TextureTransform option) reader" where
  "readOcclusionTextureInfo wasmCtx =
     bindR readUint32 (\<lambda>textureId.
     bindR skipUint32 (\<lambda>_.
     bindR readFloat32 (\<lambda>occlusionStrength.
     bindR throwR (\<lambda>parseKHRTexturesTransformExtension.
     bindR (readExtensions wasmCtx parseKHRTexturesTransformExtension) (\<lambda>extensions.
     bindR readExtras (\<lambda>_.
       unitR (if textureId \<noteq> 0
              then (case getScriptResource wasmCtx Texture (unat textureId) of
                      Some texture \<Rightarrow> Some (unat textureId) | None \<Rightarrow> None)
              else None,
              occlusionStrength, KHR_textures_transform extensions)))))))"

section \<open>Creating resources\<close>

text \<open>
  Modelled from the spec: the constructors of the resource classes
  (src/engine/resource/RemoteResources) are not among the sources at hand. Creating a
  resource allocates a fresh id and enters the resource under it into the registry and
  into the capability set of the calling script.
\<close>

definition createRemoteResource ::
  "WASMModuleContext \<Rightarrow> RemoteResource \<Rightarrow> nat \<times> WASMModuleContext" where
  "createRemoteResource wasmCtx resource =
     (let eid = nextEid wasmCtx
      in (eid, wasmCtx\<lparr>resourceIds := insert eid (resourceIds wasmCtx),
                       resourceMap := (resourceMap wasmCtx)(eid \<mapsto> resource),
                       nextEid := eid + 1\<rparr>))"

text \<open>
  The enumerations of src/engine/resource/schema are not among the sources at hand, and
  the operations below take them as a parameter: each field is the set of the member
  values of the enumeration of its name, so that \<open>E[x] === undefined\<close> is
  \<open>x \<notin> E schema\<close>.
\<close>

record Schema =
  MeshPrimitiveAttributeIndex :: "32 word set"
  MeshPrimitiveMode :: "32 word set"
  LightType :: "int set"
  ColliderType :: "32 word set"

definition create_light ::
  "Schema \<Rightarrow> WASMModuleContext \<Rightarrow> int \<Rightarrow> int \<times> WASMModuleContext" where
  "create_light schema wasmCtx t =
     (if t \<notin> LightType schema then (-1, wasmCtx)
      else let (eid, wasmCtx') = createRemoteResource wasmCtx (RLight \<lparr>lightType = t\<rparr>)
           in (int eid, wasmCtx'))"

text \<open>
  \<open>create_collider\<close> and \<open>world_create_material\<close> have no \<open>try\<close> block: an
  exception of a read leaves the operation, which is the result \<open>None\<close>.
\<close>

definition readColliderProps :: "Schema \<Rightarrow> WASMModuleContext \<Rightarrow> nat \<Rightarrow> RemoteCollider reader" where
  "readColliderProps schema wasmCtx colliderPropsPtr =
     bindR (moveCursorView colliderPropsPtr) (\<lambda>_.
     bindR readUint32 (\<lambda>type.
       if type \<notin> ColliderType schema then returnR (-1)
       else
         bindR readUint32 (\<lambda>trigger.
         bindR (readFloat32Array 3) (\<lambda>size3.
         bindR readFloat32 (\<lambda>radius'.
         bindR readFloat32 (\<lambda>height'.
         bindR readUint32 (\<lambda>meshId.
           unitR \<lparr>colliderType = type, isTrigger = (trigger \<noteq> 0), colliderSize = size3,
                   radius = radius', height = height',
                   colliderMesh =
                     (if meshId \<noteq> 0
                      then (case getScriptResource wasmCtx Mesh (unat meshId) of
                              Some mesh \<Rightarrow> Some (unat meshId) | None \<Rightarrow> None)
                      else None)\<rparr>)))))))"

definition create_collider ::
  "Schema \<Rightarrow> WASMModuleContext \<Rightarrow> nat \<Rightarrow> int option \<times> WASMModuleContext" where
  "create_collider schema wasmCtx colliderPropsPtr =
     (case readColliderProps schema wasmCtx colliderPropsPtr (cursorView wasmCtx) of
        (Value props, cv) \<Rightarrow>
          (let (eid, wasmCtx') =
                 createRemoteResource (wasmCtx\<lparr>cursorView := cv\<rparr>) (RCollider props)
           in (Some (int eid), wasmCtx'))
      | (Return r, cv) \<Rightarrow> (Some r, wasmCtx\<lparr>cursorView := cv\<rparr>)
      | (Throw, cv) \<Rightarrow> (None, wasmCtx\<lparr>cursorView := cv\<rparr>))"

text \<open>
  \<open>world_create_material\<close>: the statements of the source in their order. Three of
  them raise whenever they are reached: the calls of \<open>readTextureInfo\<close>, the calls of
  \<open>readNormalTextureInfo\<close> and \<open>readOcclusionTextureInfo\<close>, and the array
  destructuring \<open>const [occlusionTexture, occlusionTextureStrength, ...] =\<close> of the
  object that \<open>readOcclusionTextureInfo\<close> returns, a TypeError (the step \<open>throwR\<close>
  whose value is the pair of the two names that the statements after it use). The
  operation has no \<open>try\<close> block, so the first of them, in line 1258, ends every call
  that gets there. The value read for \<open>alphaMode\<close> would go into the properties of the
  new material as it is: no statement compares it with anything.
\<close>

definition readMaterialProps :: "WASMModuleContext \<Rightarrow> nat \<Rightarrow> RemoteMaterial reader" where
  "readMaterialProps wasmCtx propsPtr =
     bindR (moveCursorView propsPtr) (\<lambda>_.
     bindR (readFloat32Array 4) (\<lambda>baseColorFactor'.
     bindR (readTextureInfo wasmCtx) (\<lambda>baseColorTexture'.
     bindR readFloat32 (\<lambda>metallicFactor'.
     bindR readFloat32 (\<lambda>roughnessFactor'.
     bindR (readTextureInfo wasmCtx) (\<lambda>metallicRoughnessTexture'.
     bindR (readNormalTextureInfo wasmCtx) (\<lambda>normalTextureInfo.
     bindR (readOcclusionTextureInfo wasmCtx) (\<lambda>occlusionTextureInfo.
     bindR throwR (\<lambda>(occlusionTexture', occlusionTextureStrength').
     bindR (readTextureInfo wasmCtx) (\<lambda>emissiveTexture'.
     bindR (readFloat32Array 3) (\<lambda>emissiveFactor'.
     bindR readUint32 (\<lambda>alphaMode'.
     bindR readFloat32 (\<lambda>alphaCutoff'.
     bindR readUint32 (\<lambda>doubleSided'.
     bindR (readStringFromCursorView wasmCtx) (\<lambda>name.
     bindR (readExtensions wasmCtx (\<lambda>wasmCtx name. unitR ())) (\<lambda>extensions.
     bindR (readExtensions wasmCtx (\<lambda>wasmCtx name. unitR ())) (\<lambda>_.
     bindR readExtras (\<lambda>_.
       unitR \<lparr>materialType =
                 (if ''KHR_materials_unlit'' \<in> dom extensions then Unlit else Standard),
               baseColorFactor = baseColorFactor',
               baseColorTexture = baseColorTexture',
               metallicFactor = metallicFactor',
               roughnessFactor = roughnessFactor',
               metallicRoughnessTexture = metallicRoughnessTexture',
               normalTexture = fst normalTextureInfo,
               normalScale = fst (snd normalTextureInfo),
               normalTextureTransform = snd (snd normalTextureInfo),
               occlusionTexture = occlusionTexture',
               occlusionTextureStrength = occlusionTextureStrength',
               emissiveTexture = emissiveTexture',
               emissiveFactor = emissiveFactor',
               alphaMode = alphaMode',
               alphaCutoff = alphaCutoff',
               doubleSided = (doubleSided' \<noteq> 0),
               materialName = name\<rparr>))))))))))))))))))"

definition world_create_material ::
  "WASMModuleContext \<Rightarrow> nat \<Rightarrow> int option \<times> WASMModuleContext" where
  "world_create_material wasmCtx propsPtr =
     (case readMaterialProps wasmCtx propsPtr (cursorView wasmCtx) of
        (Value props, cv) \<Rightarrow>
          (let (eid, wasmCtx') =
                 createRemoteResource (wasmCtx\<lparr>cursorView := cv\<rparr>) (RMaterial props)
           in (Some (int eid), wasmCtx'))
      | (Return r, cv) \<Rightarrow> (Some r, wasmCtx\<lparr>cursorView := cv\<rparr>)
      | (Throw, cv) \<Rightarrow> (None, wasmCtx\<lparr>cursorView := cv\<rparr>))"

text \<open>
  \<open>world_create_mesh\<close>. \<open>readMeshPrimitiveAttributes\<close> is the inner loop over the
  attributes of one primitive, \<open>readMeshPrimitives\<close> the loop over the primitives, and
  \<open>readMeshProps\<close> everything the operation does before its comment
  "Create all the resources after parsing props": it yields the name and the list
  \<open>primitiveProps\<close>, or ends the operation with \<open>-1\<close>, or raises.
\<close>

type_synonym MeshPrimitiveProps = RemoteMeshPrimitive

fun readMeshPrimitiveAttributes ::
  "Schema \<Rightarrow> WASMModuleContext \<Rightarrow> nat \<Rightarrow> nat \<Rightarrow> nat \<Rightarrow> (32 word \<rightharpoonup> nat) \<Rightarrow>
     (32 word \<rightharpoonup> nat) reader" where
  "readMeshPrimitiveAttributes schema wasmCtx attributesPtr 0 attributeIndex attrs = unitR attrs"
| "readMeshPrimitiveAttributes schema wasmCtx attributesPtr (Suc n) attributeIndex attrs =
     bindR (moveCursorView (attributesPtr + attributeIndex * 8)) (\<lambda>_.
     bindR readUint32 (\<lambda>attributeKey.
       if attributeKey \<notin> MeshPrimitiveAttributeIndex schema then returnR (-1)
       else
         bindR readUint32 (\<lambda>attributeAccessorId.
           case getScriptResource wasmCtx Accessor (unat attributeAccessorId) of
             None \<Rightarrow> returnR (-1)
           | Some accessor \<Rightarrow>
               readMeshPrimitiveAttributes schema wasmCtx attributesPtr n (attributeIndex + 1)
                 (attrs(attributeKey \<mapsto> unat attributeAccessorId)))))"

fun readMeshPrimitives ::
  "Schema \<Rightarrow> WASMModuleContext \<Rightarrow> nat \<Rightarrow> nat \<Rightarrow> nat \<Rightarrow> MeshPrimitiveProps list \<Rightarrow>
     MeshPrimitiveProps list reader" where
  "readMeshPrimitives schema wasmCtx primitivesPtr 0 primitiveIndex primitiveProps =
     unitR primitiveProps"
| "readMeshPrimitives schema wasmCtx primitivesPtr (Suc n) primitiveIndex primitiveProps =
     bindR (moveCursorView (primitivesPtr + primitiveIndex * 20)) (\<lambda>_.
     bindR readUint32 (\<lambda>attributesPtr.
     bindR readUint32 (\<lambda>attributeCount.
     bindR (readMeshPrimitiveAttributes schema wasmCtx (unat attributesPtr)
              (unat attributeCount) 0 Map.empty) (\<lambda>attrs.
     bindR readUint32 (\<lambda>indicesAccessorId.
       if indicesAccessorId \<noteq> 0 \<and>
          getScriptResource wasmCtx Accessor (unat indicesAccessorId) = None
       then returnR (-1)
       else
         bindR readUint32 (\<lambda>materialId.
           if materialId \<noteq> 0 \<and> getScriptResource wasmCtx Material (unat materialId) = None
           then returnR (-1)
           else
             bindR readUint32 (\<lambda>mode'.
               if mode' \<notin> MeshPrimitiveMode schema then returnR (-1)
               else
                 readMeshPrimitives schema wasmCtx primitivesPtr n (primitiveIndex + 1)
                   (primitiveProps @
                    [\<lparr>attributes = attrs,
                      indices = (if indicesAccessorId \<noteq> 0
                                 then Some (unat indicesAccessorId) else None),
                      material = (if materialId \<noteq> 0 then Some (unat materialId) else None),
                      mode = mode'\<rparr>]))))))))"

definition readMeshProps ::
  "Schema \<Rightarrow> WASMModuleContext \<Rightarrow> nat \<Rightarrow> (string \<times> MeshPrimitiveProps list) reader" where
  "readMeshProps schema wasmCtx propsPtr =
     bindR (moveCursorView propsPtr) (\<lambda>_.
     bindR readUint32 (\<lambda>primitivesPtr.
     bindR readUint32 (\<lambda>primitivesCount.
     bindR skipUint32 (\<lambda>_.
     bindR skipUint32 (\<lambda>_.
     bindR (readStringFromCursorView wasmCtx) (\<lambda>name.
     bindR (readMeshPrimitives schema wasmCtx (unat primitivesPtr) (unat primitivesCount) 0 [])
       (\<lambda>primitiveProps. unitR (name, primitiveProps))))))))"

fun createMeshPrimitives ::
  "WASMModuleContext \<Rightarrow> MeshPrimitiveProps list \<Rightarrow> nat list \<Rightarrow> nat list \<times> WASMModuleContext" where
  "createMeshPrimitives wasmCtx [] prims = (prims, wasmCtx)"
| "createMeshPrimitives wasmCtx (props # rest) prims =
     (let (eid, wasmCtx') = createRemoteResource wasmCtx (RMeshPrimitive props)
      in createMeshPrimitives wasmCtx' rest (prims @ [eid]))"

definition world_create_mesh ::
  "Schema \<Rightarrow> WASMModuleContext \<Rightarrow> nat \<Rightarrow> int \<times> WASMModuleContext" where
  "world_create_mesh schema wasmCtx propsPtr =
     (case readMeshProps schema wasmCtx propsPtr (cursorView wasmCtx) of
        (Value (name, primitiveProps), cv) \<Rightarrow>
          (let (prims, wasmCtx1) =
                 createMeshPrimitives (wasmCtx\<lparr>cursorView := cv\<rparr>) primitiveProps [];
               (eid, wasmCtx2) =
                 createRemoteResource wasmCtx1 (RMesh \<lparr>meshName = name, primitives = prims\<rparr>)
           in (int eid, wasmCtx2))
      | (Return r, cv) \<Rightarrow> (r, wasmCtx\<lparr>cursorView := cv\<rparr>)
      | (Throw, cv) \<Rightarrow> (0, wasmCtx\<lparr>cursorView := cv\<rparr>))"

text \<open>
  What the registry of a context holds: the capability set of the script, the map of
  the live resources and the id allocator.
\<close>

definition registry ::
  "WASMModuleContext \<Rightarrow> nat set \<times> (nat \<rightharpoonup> RemoteResource) \<times> nat" where
  "registry wasmCtx = (resourceIds wasmCtx, resourceMap wasmCtx, nextEid wasmCtx)"

section \<open>UI text\<close>

text \<open>
  The result of an operation of the UI text is a JavaScript value: a number, or
  \<open>undefined\<close> where the function body ends without a \<open>return\<close>.

  Modelled from the spec: \<open>readFloat32ArrayInto\<close> (src/engine/scripting/WASMModuleContext)
  is not among the sources at hand; it copies as many 32-bit values as the target array
  holds from the guest memory at the pointer into the target.
\<close>

datatype JSValue = Number int | Undefined

definition readFloat32ArrayInto :: "WASMModuleContext \<Rightarrow> nat \<Rightarrow> 32 word list \<Rightarrow> 32 word list" where
  "readFloat32ArrayInto wasmCtx ptr target =
     (let src = take (length target) (drop (ptr div 4) (U32Heap wasmCtx))
      in src @ drop (length src) target)"

definition ui_text_set_font_size ::
  "WASMModuleContext \<Rightarrow> nat \<Rightarrow> 32 word \<Rightarrow> JSValue \<times> WASMModuleContext" where
  "ui_text_set_font_size wasmCtx textId fontSize' =
     (case getScriptResource wasmCtx UIText textId of
        Some (RUIText flex) \<Rightarrow>
          (Number 0, wasmCtx\<lparr>resourceMap :=
             (resourceMap wasmCtx)(textId \<mapsto> RUIText (flex\<lparr>fontSize := fontSize'\<rparr>))\<rparr>)
      | _ \<Rightarrow> (Number (-1), wasmCtx))"

definition ui_text_set_color ::
  "WASMModuleContext \<Rightarrow> nat \<Rightarrow> nat \<Rightarrow> JSValue \<times> WASMModuleContext" where
  "ui_text_set_color wasmCtx textId colorPtr =
     (case getScriptResource wasmCtx UIText textId of
        Some (RUIText flex) \<Rightarrow>
          (Undefined, wasmCtx\<lparr>resourceMap :=
             (resourceMap wasmCtx)(textId \<mapsto>
                RUIText (flex\<lparr>color := readFloat32ArrayInto wasmCtx colorPtr (color flex)\<rparr>))\<rparr>)
      | _ \<Rightarrow> (Number (-1), wasmCtx))"

section \<open>Example inputs\<close>

text \<open>
  The contexts and parameter blocks at which the theorems below are instantiated.
  \<open>exampleSchema\<close> gives each enumeration a few small member values; 99 is a member
  of none of them.
\<close>

definition exampleSchema :: Schema where
  "exampleSchema =
     \<lparr>MeshPrimitiveAttributeIndex = {0, 1, 2, 3, 4, 5, 6, 7},
      MeshPrimitiveMode = {0, 1, 2, 3, 4, 5, 6},
      LightType = {0, 1, 2},
      ColliderType = {0, 1, 2, 3, 4, 5}\<rparr>"

definition exampleNode :: RemoteNode where
  "exampleNode =
     \<lparr>visible = False, isStatic = False, parent = None, parentScene = None,
      firstChild = None, nextSibling = None\<rparr>"

definition chainNode :: "nat option \<Rightarrow> RemoteResource" where
  "chainNode next = RNode (exampleNode\<lparr>nextSibling := next\<rparr>)"

definition nodeWithChildren :: "nat option \<Rightarrow> RemoteResource" where
  "nodeWithChildren first = RNode (exampleNode\<lparr>firstChild := first\<rparr>)"

definition emptyCursorView :: CursorView where
  "emptyCursorView = \<lparr>buffer = (\<lambda>p. 0), byteLength = 0, cursor = 0\<rparr>"

definition exampleContext ::
  "nat set \<Rightarrow> (nat \<rightharpoonup> RemoteResource) \<Rightarrow> nat \<Rightarrow> WASMModuleContext" where
  "exampleContext ids m n =
     \<lparr>resourceIds = ids, resourceMap = m, nextEid = n, cursorView = emptyCursorView,
      U32Heap = [0, 0, 0, 0, 0, 0, 0, 0], strings = (\<lambda>p n. [])\<rparr>"

text \<open>Three ids of the capability set and the three ways to fail the access check.\<close>

definition accessContext :: WASMModuleContext where
  "accessContext =
     exampleContext {3, 4, 5}
       [3 \<mapsto> RNode exampleNode, 5 \<mapsto> RTexture, 7 \<mapsto> RNode exampleNode] 8"

text \<open>
  A collider parameter block at offset 0 with type 0 and mesh id 7 (the last of its
  eight 32-bit fields); mesh 7 is live and not in the capability set of the caller.
\<close>

definition colliderContext :: WASMModuleContext where
  "colliderContext =
     (exampleContext {} [7 \<mapsto> RMesh \<lparr>meshName = [], primitives = []\<rparr>] 8)
       \<lparr>cursorView := \<lparr>buffer = (\<lambda>p. 0)(28 := 7), byteLength = 32, cursor = 0\<rparr>\<rparr>"

text \<open>
  A material parameter block at offset 0 with no texture, no extension and the value
  99 in its \<open>alphaMode\<close> field, which the order and the widths of the fields put at
  byte offset 164.
\<close>

definition materialContext :: WASMModuleContext where
  "materialContext =
     (exampleContext {} Map.empty 1)
       \<lparr>cursorView := \<lparr>buffer = (\<lambda>p. 0)(164 := 99), byteLength = 208, cursor = 0\<rparr>\<rparr>"

text \<open>
  A mesh parameter block at offset 0 with two primitives at offset 32, 20 bytes each,
  without attributes, indices or material: the first has mode 4, the second mode 99.
\<close>

definition meshContext :: WASMModuleContext where
  "meshContext =
     (exampleContext {} Map.empty 1)
       \<lparr>cursorView :=
          \<lparr>buffer = (\<lambda>p. 0)(0 := 32, 4 := 2, 48 := 4, 68 := 99), byteLength = 72,
           cursor = 0\<rparr>\<rparr>"

text \<open>
  A mesh parameter block at offset 0 with one primitive at offset 32: its attribute
  list, at offset 64, has the one record (key 0, accessor 3), its indices and material
  are 0 and its mode, the last of the five fields of the primitive, is 99. The three
  32-bit values behind the attribute record are 0. The caller owns the accessor 3.
\<close>

definition attrMeshContext :: WASMModuleContext where
  "attrMeshContext =
     (exampleContext {3} [3 \<mapsto> RAccessor] 4)
       \<lparr>cursorView :=
          \<lparr>buffer = (\<lambda>p. 0)(0 := 32, 4 := 1, 32 := 64, 36 := 1, 48 := 99, 68 := 3),
           byteLength = 84, cursor = 0\<rparr>\<rparr>"

text \<open>The same block with an empty attribute list.\<close>

definition noAttrMeshContext :: WASMModuleContext where
  "noAttrMeshContext =
     (exampleContext {3} [3 \<mapsto> RAccessor] 4)
       \<lparr>cursorView :=
          \<lparr>buffer = (\<lambda>p. 0)(0 := 32, 4 := 1, 32 := 64, 36 := 0, 48 := 99, 68 := 3),
           byteLength = 84, cursor = 0\<rparr>\<rparr>"

text \<open>
  Scene 1 and node 9 with the same children 5 and 6; the caller owns the scene, node 9
  and node 6.
\<close>

definition childAtContext :: WASMModuleContext where
  "childAtContext =
     exampleContext {1, 6, 9}
       [1 \<mapsto> RScene \<lparr>firstNode = Some 5\<rparr>,
        5 \<mapsto> chainNode (Some 6),
        6 \<mapsto> chainNode None,
        9 \<mapsto> nodeWithChildren (Some 5)] 10"

text \<open>
  Scene 1 and node 9 with the same five children 2, 3, 4, 5, 6, of which the caller
  owns 2, 4 and 6.
\<close>

definition childrenContext :: WASMModuleContext where
  "childrenContext =
     exampleContext {1, 2, 4, 6, 9}
       [1 \<mapsto> RScene \<lparr>firstNode = Some 2\<rparr>,
        2 \<mapsto> chainNode (Some 3),
        3 \<mapsto> chainNode (Some 4),
        4 \<mapsto> chainNode (Some 5),
        5 \<mapsto> chainNode (Some 6),
        6 \<mapsto> chainNode None,
        9 \<mapsto> nodeWithChildren (Some 2)] 10"

text \<open>
  Node 3 is a child of node 2 in scene 1 and has the child 4; the caller owns the
  nodes 3 and 4 only.
\<close>

definition parentContext :: WASMModuleContext where
  "parentContext =
     exampleContext {3, 4}
       [1 \<mapsto> RScene \<lparr>firstNode = Some 2\<rparr>,
        2 \<mapsto> nodeWithChildren (Some 3),
        3 \<mapsto> RNode (exampleNode\<lparr>parent := Some 2, parentScene := Some 1,
                                 firstChild := Some 4\<rparr>),
        4 \<mapsto> RNode (exampleNode\<lparr>parent := Some 3, parentScene := Some 1\<rparr>)] 5"

text \<open>The UI text 4, owned by the caller.\<close>

definition textContext :: WASMModuleContext where
  "textContext =
     exampleContext {4} [4 \<mapsto> RUIText \<lparr>color = [0, 0, 0, 0], fontSize = 0\<rparr>] 5"

section \<open>Properties of the access check\<close>

lemma getScriptResource_Some_iff:
  "getScriptResource wasmCtx rtype i = Some r \<longleftrightarrow>
     i \<in> resourceIds wasmCtx \<and> resourceMap wasmCtx i = Some r \<and> resourceType r = rtype"
  by (auto simp: getScriptResource_def getScriptResourceLog_def split: option.splits)

lemma getScriptResource_unowned:
  "i \<notin> resourceIds wasmCtx \<Longrightarrow> getScriptResource wasmCtx rtype i = None"
  by (simp add: getScriptResource_def getScriptResourceLog_def)

text \<open>
  C7. The access check fails in exactly three cases: the id is not in the capability
  set of the script (NotAuthorized), the id is in the set and the registry map has no
  entry for it (NotFound), and the entry is a resource of another type than the expected
  one (TypeMismatch). In each of them the caller receives no resource, and it receives
  the resource in every other case.
\<close>

theorem getScriptResource_three_failures:
  "(getScriptResourceLog wasmCtx rtype i = Inl NotAuthorized \<longleftrightarrow> i \<notin> resourceIds wasmCtx)
   \<and> (getScriptResourceLog wasmCtx rtype i = Inl NotFound \<longleftrightarrow>
        i \<in> resourceIds wasmCtx \<and> resourceMap wasmCtx i = None)
   \<and> (getScriptResourceLog wasmCtx rtype i = Inl TypeMismatch \<longleftrightarrow>
        i \<in> resourceIds wasmCtx \<and>
        (\<exists>r. resourceMap wasmCtx i = Some r \<and> resourceType r \<noteq> rtype))
   \<and> (getScriptResource wasmCtx rtype i = None \<longleftrightarrow>
        (\<exists>e. getScriptResourceLog wasmCtx rtype i = Inl e))
   \<and> ((\<exists>r. getScriptResource wasmCtx rtype i = Some r) \<longleftrightarrow>
        i \<in> resourceIds wasmCtx \<and>
        (\<exists>r. resourceMap wasmCtx i = Some r \<and> resourceType r = rtype))"
  by (auto simp: getScriptResource_def getScriptResourceLog_def split: option.splits)

theorem getScriptResource_three_failures_witness:
  "getScriptResourceLog accessContext Node 7 = Inl NotAuthorized \<and>
   getScriptResourceLog accessContext Node 4 = Inl NotFound \<and>
   getScriptResourceLog accessContext Node 5 = Inl TypeMismatch \<and>
   getScriptResource accessContext Node 7 = None \<and>
   getScriptResource accessContext Node 4 = None \<and>
   getScriptResource accessContext Node 5 = None \<and>
   getScriptResource accessContext Node 3 = Some (RNode exampleNode)"
proof -
  have ids: "resourceIds accessContext = {3, 4, 5}"
    by (simp add: accessContext_def exampleContext_def)
  have m4: "resourceMap accessContext 4 = None"
    and m5: "resourceMap accessContext 5 = Some RTexture"
    and m3: "resourceMap accessContext 3 = Some (RNode exampleNode)"
    by (simp_all add: accessContext_def exampleContext_def)
  have a: "getScriptResourceLog accessContext Node 7 = Inl NotAuthorized"
    using getScriptResource_three_failures [of accessContext Node 7] ids by simp
  have b: "getScriptResourceLog accessContext Node 4 = Inl NotFound"
    using getScriptResource_three_failures [of accessContext Node 4] ids m4 by simp
  have c: "getScriptResourceLog accessContext Node 5 = Inl TypeMismatch"
    using getScriptResource_three_failures [of accessContext Node 5] ids m5 by simp
  have d: "getScriptResource accessContext Node 7 = None"
    using getScriptResource_three_failures [of accessContext Node 7] a by simp
  have e: "getScriptResource accessContext Node 4 = None"
    using getScriptResource_three_failures [of accessContext Node 4] b by simp
  have f: "getScriptResource accessContext Node 5 = None"
    using getScriptResource_three_failures [of accessContext Node 5] c by simp
  have g: "getScriptResource accessContext Node 3 = Some (RNode exampleNode)"
    using ids m3 by (simp add: getScriptResource_Some_iff)
  from a b c d e f g show ?thesis by simp
qed

section \<open>Properties of the node accessors\<close>

text \<open>
  \<open>node_set_visible\<close> on a node that the caller does not own returns \<open>-1\<close> and
  leaves the context as it is; on a node that the caller owns it returns \<open>0\<close> and the
  node is visible afterwards. The scenario of the two scripts: node 7 is live, script B
  has an empty capability set and script A owns the node.
\<close>

lemma node_set_visible_denied:
  "nodeId \<notin> resourceIds wasmCtx \<Longrightarrow> node_set_visible wasmCtx nodeId vis = (-1, wasmCtx)"
  by (simp add: node_set_visible_def getScriptResource_unowned)

lemma node_set_visible_owner:
  "getScriptResource wasmCtx Node nodeId = Some (RNode node) \<Longrightarrow>
   fst (node_set_visible wasmCtx nodeId 1) = 0 \<and>
   resourceMap (snd (node_set_visible wasmCtx nodeId 1)) nodeId =
     Some (RNode (node\<lparr>visible := True\<rparr>))"
  by (simp add: node_set_visible_def)

lemma node_set_visible_scenario:
  "node_set_visible (exampleContext {} [7 \<mapsto> RNode exampleNode] 8) 7 1 =
     (-1, exampleContext {} [7 \<mapsto> RNode exampleNode] 8) \<and>
   node_set_visible (exampleContext {7} [7 \<mapsto> RNode exampleNode] 8) 7 1 =
     (0, exampleContext {7} [7 \<mapsto> RNode (exampleNode\<lparr>visible := True\<rparr>)] 8)"
  by (simp add: node_set_visible_def getScriptResource_def getScriptResourceLog_def
      exampleContext_def)

text \<open>
  C9. For a node that passes the access check, \<open>node_get_parent\<close> returns the id of
  the parent if the node has one and the id is in the capability set of the caller, and
  0 otherwise: without a parent, and with a parent that the caller does not own. The
  same holds for \<open>node_get_parent_scene\<close>. A result other than 0 is an id of the
  capability set.
\<close>

theorem node_get_parent_filtered:
  assumes "getScriptResource wasmCtx Node nodeId = Some (RNode node)"
  shows "node_get_parent wasmCtx nodeId =
           (case parent node of
              None \<Rightarrow> 0
            | Some p \<Rightarrow> if p \<in> resourceIds wasmCtx then int p else 0)
         \<and> node_get_parent_scene wasmCtx nodeId =
           (case parentScene node of
              None \<Rightarrow> 0
            | Some s \<Rightarrow> if s \<in> resourceIds wasmCtx then int s else 0)
         \<and> (node_get_parent wasmCtx nodeId \<noteq> 0 \<longrightarrow>
              nat (node_get_parent wasmCtx nodeId) \<in> resourceIds wasmCtx)
         \<and> (node_get_parent_scene wasmCtx nodeId \<noteq> 0 \<longrightarrow>
              nat (node_get_parent_scene wasmCtx nodeId) \<in> resourceIds wasmCtx)"
  using assms
  by (auto simp: node_get_parent_def node_get_parent_scene_def split: option.splits)

theorem node_get_parent_filtered_witness:
  "getScriptResource parentContext Node 3 =
     Some (RNode (exampleNode\<lparr>parent := Some 2, parentScene := Some 1,
                               firstChild := Some 4\<rparr>)) \<and>
   2 \<notin> resourceIds parentContext \<and> node_get_parent parentContext 3 = 0 \<and>
   1 \<notin> resourceIds parentContext \<and> node_get_parent_scene parentContext 3 = 0 \<and>
   node_get_parent parentContext 4 = 3 \<and> 3 \<in> resourceIds parentContext"
proof -
  let ?n3 = "exampleNode\<lparr>parent := Some 2, parentScene := Some 1, firstChild := Some 4\<rparr>"
  let ?n4 = "exampleNode\<lparr>parent := Some 3, parentScene := Some 1\<rparr>"
  have ids: "resourceIds parentContext = {3, 4}"
    by (simp add: parentContext_def exampleContext_def)
  have a: "getScriptResource parentContext Node 3 = Some (RNode ?n3)"
    by (simp add: getScriptResource_Some_iff parentContext_def exampleContext_def)
  have b: "getScriptResource parentContext Node 4 = Some (RNode ?n4)"
    by (simp add: getScriptResource_Some_iff parentContext_def exampleContext_def)
  show ?thesis
    using a ids node_get_parent_filtered [OF a] node_get_parent_filtered [OF b]
    by (simp add: exampleNode_def)
qed

section \<open>Properties of the child traversal\<close>

lemma siblingChain_count_loop:
  "siblingChain (resourceMap wasmCtx) cur cs \<Longrightarrow>
   getScriptChildCount_loop wasmCtx cur n = Some (n + int (length (visibleChildren wasmCtx cs)))"
proof (induction cs arbitrary: cur n)
  case Nil
  then show ?case
    by (subst getScriptChildCount_loop.simps) (simp add: visibleChildren_def)
next
  case (Cons c cs)
  from Cons.prems obtain node where
    cur: "cur = Some c" and m: "resourceMap wasmCtx c = Some (RNode node)"
    and rest: "siblingChain (resourceMap wasmCtx) (nextSibling node) cs"
    by (auto split: option.splits RemoteResource.splits)
  show ?case
    by (subst getScriptChildCount_loop.simps)
       (simp add: cur m Cons.IH [OF rest] visibleChildren_def)
qed

text \<open>
  C6. For a scene that passes the access check and whose children are the nodes
  \<open>cs\<close>, \<open>scene_get_node_count\<close> returns the number of the children that are in the
  capability set of the caller: 3 for a scene with five children of which the caller
  owns three.
\<close>

theorem scene_get_node_count_filtered:
  assumes "getScriptResource wasmCtx Scene sceneId = Some scene"
    and "siblingChain (resourceMap wasmCtx) (firstChildOf scene) cs"
  shows "scene_get_node_count wasmCtx sceneId =
           Some (int (length (visibleChildren wasmCtx cs)))"
proof -
  from assms(1) have "resourceType scene = Scene"
    by (simp add: getScriptResource_Some_iff)
  then obtain s where s: "scene = RScene s"
    by (cases scene) simp_all
  show ?thesis
    using assms siblingChain_count_loop [OF assms(2), of 0]
    by (simp add: scene_get_node_count_def getScriptChildCount_def s)
qed

theorem scene_get_node_count_filtered_witness:
  "getScriptResource childrenContext Scene 1 = Some (RScene \<lparr>firstNode = Some 2\<rparr>) \<and>
   siblingChain (resourceMap childrenContext) (firstChildOf (RScene \<lparr>firstNode = Some 2\<rparr>))
     [2, 3, 4, 5, 6] \<and>
   visibleChildren childrenContext [2, 3, 4, 5, 6] = [2, 4, 6] \<and>
   scene_get_node_count childrenContext 1 = Some 3"
proof -
  have a: "getScriptResource childrenContext Scene 1 = Some (RScene \<lparr>firstNode = Some 2\<rparr>)"
    by (simp add: getScriptResource_Some_iff childrenContext_def exampleContext_def)
  have b: "siblingChain (resourceMap childrenContext)
             (firstChildOf (RScene \<lparr>firstNode = Some 2\<rparr>)) [2, 3, 4, 5, 6]"
    by (simp add: childrenContext_def exampleContext_def chainNode_def exampleNode_def)
  have c: "visibleChildren childrenContext [2, 3, 4, 5, 6] = [2, 4, 6]"
    by (simp add: visibleChildren_def childrenContext_def exampleContext_def)
  show ?thesis
    using a b c scene_get_node_count_filtered [OF a b] by simp
qed

lemma node_get_child_count_filtered:
  assumes "getScriptResource wasmCtx Node nodeId = Some node"
    and "siblingChain (resourceMap wasmCtx) (firstChildOf node) cs"
  shows "node_get_child_count wasmCtx nodeId =
           Some (int (length (visibleChildren wasmCtx cs)))"
proof -
  from assms(1) have "resourceType node = Node"
    by (simp add: getScriptResource_Some_iff)
  then obtain n where n: "node = RNode n"
    by (cases node) simp_all
  show ?thesis
    using assms siblingChain_count_loop [OF assms(2), of 0]
    by (simp add: node_get_child_count_def getScriptChildCount_def n)
qed

subsection \<open>The bulk listing\<close>






subsection \<open>The indexed lookup\<close>

lemma scriptGetChildAt_loop_end:
  "scriptGetChildAt_loop wasmCtx index None i = Some (i, None)"
  by (subst scriptGetChildAt_loop.simps) simp

lemma scriptGetChildAt_loop_stop:
  "\<not> i < index \<Longrightarrow> scriptGetChildAt_loop wasmCtx index (Some c) i = Some (i, Some c)"
  by (subst scriptGetChildAt_loop.simps) simp

lemma scriptGetChildAt_loop_step:
  "i < index \<Longrightarrow> resourceMap wasmCtx c = Some (RNode node) \<Longrightarrow>
   scriptGetChildAt_loop wasmCtx index (Some c) i =
     scriptGetChildAt_loop wasmCtx index (nextSibling node)
       (if c \<in> resourceIds wasmCtx then i + 1 else i)"
  by (subst scriptGetChildAt_loop.simps) simp

text \<open>
  Where the caller owns every child of the parent, the lookup returns the child at the
  index, and 0 for an index that is not below the number of children.
\<close>

lemma scriptGetChildAt_loop_all_owned:
  "siblingChain (resourceMap wasmCtx) cur cs \<Longrightarrow> set cs \<subseteq> resourceIds wasmCtx \<Longrightarrow>
   i \<le> index \<Longrightarrow>
   scriptGetChildAt_loop wasmCtx index cur i =
     Some (if nat (index - i) < length cs then (index, Some (cs ! nat (index - i)))
           else (i + int (length cs), None))"
proof (induction cs arbitrary: cur i)
  case Nil
  then show ?case by (simp add: scriptGetChildAt_loop_end)
next
  case (Cons c cs)
  from Cons.prems(1) obtain node where
    cur: "cur = Some c" and m: "resourceMap wasmCtx c = Some (RNode node)"
    and rest: "siblingChain (resourceMap wasmCtx) (nextSibling node) cs"
    by (auto split: option.splits RemoteResource.splits)
  from Cons.prems(2) have c: "c \<in> resourceIds wasmCtx" and sub: "set cs \<subseteq> resourceIds wasmCtx"
    by simp_all
  show ?case
  proof (cases "i < index")
    case True
    then have le: "i + 1 \<le> index" by simp
    from True have n: "nat (index - i) = Suc (nat (index - (i + 1)))" by linarith
    show ?thesis
      using Cons.IH [OF rest sub le] True
      by (simp add: cur scriptGetChildAt_loop_step [OF True m] c n)
  next
    case False
    with Cons.prems(3) have "i = index" by simp
    then show ?thesis
      by (simp add: cur scriptGetChildAt_loop_stop)
  qed
qed

lemma scriptGetChildAt_all_owned:
  assumes "siblingChain (resourceMap wasmCtx) (firstChildOf p) cs"
    and "set cs \<subseteq> resourceIds wasmCtx" and "0 \<le> index"
  shows "scriptGetChildAt wasmCtx p index =
           Some (if nat index < length cs then int (cs ! nat index) else 0)"
proof (cases "nat index < length cs")
  case True
  then have "cs ! nat index \<in> resourceIds wasmCtx"
    using assms(2) by (meson nth_mem subsetD)
  with True show ?thesis
    using scriptGetChildAt_loop_all_owned [OF assms(1) assms(2), of 0 index] assms(3)
    by (simp add: scriptGetChildAt_def)
next
  case False
  then show ?thesis
    using scriptGetChildAt_loop_all_owned [OF assms(1) assms(2), of 0 index] assms(3)
    by (simp add: scriptGetChildAt_def)
qed

text \<open>
  C3. The claim: the lookup at index \<open>i\<close> returns the child number \<open>i + 1\<close> among the
  children that the caller owns, the others skipped. The loop of \<open>scriptGetChildAt\<close>
  stops as soon as it has passed \<open>i\<close> owned children, and the test after it looks at
  the very next child only. Scene 1 and node 9 have the children 5 and 6, of which the
  caller owns 6: the first owned child is 6, and the lookup at index 0 returns 0 for
  both parents.
\<close>

theorem scene_get_node_unowned_sibling:
  "siblingChain (resourceMap childAtContext) (Some 5) [5, 6] \<and>
   visibleChildren childAtContext [5, 6] = [6] \<and>
   scene_get_node childAtContext 1 0 = Some 0 \<and>
   node_get_child childAtContext 9 0 = Some 0"
  by (simp add: scene_get_node_def node_get_child_def scriptGetChildAt_def childAtContext_def
      exampleContext_def chainNode_def nodeWithChildren_def exampleNode_def
      visibleChildren_def getScriptResource_def getScriptResourceLog_def
      scriptGetChildAt_loop_end scriptGetChildAt_loop_stop scriptGetChildAt_loop_step)

section \<open>Properties of the operations that create resources\<close>

lemma readUint32Array_step:
  "0 < n \<Longrightarrow>
   readUint32Array n =
     bindR readUint32 (\<lambda>x. bindR (readUint32Array (n - 1)) (\<lambda>xs. unitR (x # xs)))"
  by (cases n) simp_all

lemma readMeshPrimitives_step:
  "0 < n \<Longrightarrow>
   readMeshPrimitives schema wasmCtx primitivesPtr n primitiveIndex primitiveProps =
     readMeshPrimitives schema wasmCtx primitivesPtr (Suc (n - 1)) primitiveIndex primitiveProps"
  by simp

subsection \<open>world_create_mesh\<close>

lemma createMeshPrimitives_registry:
  "createMeshPrimitives wasmCtx ps prims = (prims', wasmCtx') \<Longrightarrow>
   nextEid wasmCtx' = nextEid wasmCtx + length ps \<and>
   resourceIds wasmCtx' = resourceIds wasmCtx \<union> {nextEid wasmCtx ..< nextEid wasmCtx + length ps} \<and>
   prims' = prims @ [nextEid wasmCtx ..< nextEid wasmCtx + length ps]"
proof (induction ps arbitrary: wasmCtx prims)
  case Nil
  then show ?case by simp
next
  case (Cons props ps)
  let ?ctx = "snd (createRemoteResource wasmCtx (RMeshPrimitive props))"
  have n: "nextEid ?ctx = nextEid wasmCtx + 1"
    and i: "resourceIds ?ctx = insert (nextEid wasmCtx) (resourceIds wasmCtx)"
    by (simp_all add: createRemoteResource_def Let_def)
  from Cons.prems have
    "createMeshPrimitives ?ctx ps (prims @ [nextEid wasmCtx]) = (prims', wasmCtx')"
    by (simp add: createRemoteResource_def Let_def)
  from Cons.IH [OF this] have
    ih: "nextEid wasmCtx' = nextEid ?ctx + length ps"
      "resourceIds wasmCtx' = resourceIds ?ctx \<union> {nextEid ?ctx ..< nextEid ?ctx + length ps}"
      "prims' = (prims @ [nextEid wasmCtx]) @ [nextEid ?ctx ..< nextEid ?ctx + length ps]"
    by simp_all
  let ?e = "nextEid wasmCtx"
  have u: "[?e ..< ?e + length (props # ps)] = ?e # [?e + 1 ..< ?e + 1 + length ps]"
    by (subst upt_rec) simp
  have s: "{?e ..< ?e + length (props # ps)} = insert ?e {?e + 1 ..< ?e + 1 + length ps}"
    by auto
  have "nextEid wasmCtx' = ?e + length (props # ps)"
    using ih(1) by (simp add: n)
  moreover have "resourceIds wasmCtx' = resourceIds wasmCtx \<union> {?e ..< ?e + length (props # ps)}"
    unfolding s using ih(2) by (simp add: n i)
  moreover have "prims' = prims @ [?e ..< ?e + length (props # ps)]"
    unfolding u using ih(3) by (simp add: n)
  ultimately show ?case by blast
qed

text \<open>
  Where the properties of all primitives are read and valid, the operation registers one
  resource for each primitive and one for the mesh, whose id it returns.
\<close>

lemma world_create_mesh_success:
  assumes "readMeshProps schema wasmCtx propsPtr (cursorView wasmCtx) =
             (Value (name, primitiveProps), cv)"
  shows "fst (world_create_mesh schema wasmCtx propsPtr) =
           int (nextEid wasmCtx + length primitiveProps)
         \<and> nextEid (snd (world_create_mesh schema wasmCtx propsPtr)) =
           nextEid wasmCtx + length primitiveProps + 1"
proof -
  obtain prims ctx1 where
    c: "createMeshPrimitives (wasmCtx\<lparr>cursorView := cv\<rparr>) primitiveProps [] = (prims, ctx1)"
    by (cases "createMeshPrimitives (wasmCtx\<lparr>cursorView := cv\<rparr>) primitiveProps []")
  from createMeshPrimitives_registry [OF c]
  have "nextEid ctx1 = nextEid wasmCtx + length primitiveProps" by simp
  then show ?thesis
    using assms c by (simp add: world_create_mesh_def createRemoteResource_def Let_def)
qed

text \<open>
  \<open>world_create_mesh\<close> creates resources only after it has read and checked the
  properties of all primitives: where that phase does not yield the list of properties,
  because one of its checks fails or a read raises, the capability set, the map of the
  live resources and the id allocator are what they were before the call.
\<close>

lemma world_create_mesh_validates_first:
  assumes "\<forall>v. fst (readMeshProps schema wasmCtx propsPtr (cursorView wasmCtx)) \<noteq> Value v"
  shows "registry (snd (world_create_mesh schema wasmCtx propsPtr)) = registry wasmCtx"
proof (cases "readMeshProps schema wasmCtx propsPtr (cursorView wasmCtx)")
  case (Pair c cv)
  with assms show ?thesis
    by (cases c) (simp_all add: world_create_mesh_def registry_def)
qed

lemma readMeshProps_meshContext:
  "fst (readMeshProps exampleSchema meshContext 0 (cursorView meshContext)) = Return (-1)"
  by (simp add: readMeshProps_def meshContext_def exampleContext_def exampleSchema_def
      readStringFromCursorView_def skipUint32_def bindR_def unitR_def returnR_def
      moveCursorView_def readUint32_def readMeshPrimitives_step)

lemma world_create_mesh_invalid_mode_example:
  "fst (world_create_mesh exampleSchema meshContext 0) = -1 \<and>
   registry (snd (world_create_mesh exampleSchema meshContext 0)) = registry meshContext"
proof -
  have h: "\<forall>v. fst (readMeshProps exampleSchema meshContext 0 (cursorView meshContext)) \<noteq> Value v"
    by (simp add: readMeshProps_meshContext)
  obtain cv where
    "readMeshProps exampleSchema meshContext 0 (cursorView meshContext) = (Return (-1), cv)"
    using readMeshProps_meshContext by (metis fst_conv surj_pair)
  then have "fst (world_create_mesh exampleSchema meshContext 0) = -1"
    by (simp add: world_create_mesh_def)
  with world_create_mesh_validates_first [OF h] show ?thesis by simp
qed

text \<open>
  The result of a call that has created the mesh is its id; a negative result means
  that nothing was registered.
\<close>

lemma world_create_mesh_negative_result:
  assumes "fst (world_create_mesh schema wasmCtx propsPtr) < 0"
  shows "registry (snd (world_create_mesh schema wasmCtx propsPtr)) = registry wasmCtx"
proof (cases "readMeshProps schema wasmCtx propsPtr (cursorView wasmCtx)")
  case (Pair c cv)
  show ?thesis
  proof (cases c)
    case (Value v)
    with Pair assms show ?thesis
      by (simp add: world_create_mesh_def split: prod.splits)
  next
    case (Return r)
    with Pair show ?thesis
      by (simp add: world_create_mesh_def registry_def)
  next
    case Throw
    with Pair show ?thesis
      by (simp add: world_create_mesh_def registry_def)
  qed
qed

lemma readMeshPrimitiveAttributes_step:
  "0 < n \<Longrightarrow>
   readMeshPrimitiveAttributes schema wasmCtx attributesPtr n attributeIndex attrs =
     readMeshPrimitiveAttributes schema wasmCtx attributesPtr (Suc (n - 1)) attributeIndex attrs"
  by simp

text \<open>
  C4. The claim: \<open>world_create_mesh\<close> validates the attribute keys, the handles and
  the mode of every primitive before it creates a resource, so that it registers nothing
  where a primitive is not valid. The checks do come before the first resource is
  created, but after the loop over the attributes the cursor is behind the last
  attribute record and is not moved back into the primitive: the indices, the material
  and the mode are read from there. The primitive of the block below has one attribute
  and the mode 99, which is no member of \<open>MeshPrimitiveMode\<close>; the operation reads the
  mode 0 behind the attribute record, registers the primitive 4 and the mesh 5, and
  returns 5. With an empty attribute list the same primitive is refused with \<open>-1\<close>.
\<close>

theorem world_create_mesh_unchecked_mode:
  "buffer (cursorView attrMeshContext) (32 + 16) = 99 \<and>
   99 \<notin> MeshPrimitiveMode exampleSchema \<and>
   resourceMap attrMeshContext 4 = None \<and>
   resourceMap attrMeshContext 5 = None \<and>
   fst (world_create_mesh exampleSchema attrMeshContext 0) = 5 \<and>
   (case resourceMap (snd (world_create_mesh exampleSchema attrMeshContext 0)) 4 of
      Some (RMeshPrimitive p) \<Rightarrow> mode p = 0 \<and> attributes p 0 = Some 3
    | _ \<Rightarrow> False) \<and>
   resourceMap (snd (world_create_mesh exampleSchema attrMeshContext 0)) 5 =
     Some (RMesh \<lparr>meshName = [], primitives = [4]\<rparr>) \<and>
   resourceIds (snd (world_create_mesh exampleSchema attrMeshContext 0)) = {3, 4, 5} \<and>
   fst (world_create_mesh exampleSchema noAttrMeshContext 0) = -1"
  by (simp add: world_create_mesh_def readMeshProps_def attrMeshContext_def
      noAttrMeshContext_def exampleContext_def exampleSchema_def
      readStringFromCursorView_def skipUint32_def bindR_def unitR_def returnR_def
      moveCursorView_def readUint32_def readMeshPrimitives_step
      readMeshPrimitiveAttributes_step createRemoteResource_def getScriptResource_def
      getScriptResourceLog_def insert_commute)

text \<open>
  C5. The claim: an operation whose result is a resource id returns 0 on every failure.
  \<open>create_light\<close> with a type that is no member of \<open>LightType\<close> returns \<open>-1\<close>, and
  so does \<open>world_create_mesh\<close> where the mode of a primitive is no member of
  \<open>MeshPrimitiveMode\<close>; neither registers a resource.
\<close>

theorem create_light_invalid_type:
  "99 \<notin> LightType exampleSchema \<and>
   create_light exampleSchema meshContext 99 = (-1, meshContext) \<and>
   fst (world_create_mesh exampleSchema meshContext 0) = -1"
proof -
  obtain cv where
    "readMeshProps exampleSchema meshContext 0 (cursorView meshContext) = (Return (-1), cv)"
    using readMeshProps_meshContext by (metis fst_conv surj_pair)
  then have "fst (world_create_mesh exampleSchema meshContext 0) = -1"
    by (simp add: world_create_mesh_def)
  moreover have "create_light exampleSchema meshContext 99 = (-1, meshContext)"
    by (simp add: create_light_def exampleSchema_def)
  ultimately show ?thesis by (simp add: exampleSchema_def)
qed

lemma create_light_invalid:
  "t \<notin> LightType schema \<Longrightarrow> create_light schema wasmCtx t = (-1, wasmCtx)"
  by (simp add: create_light_def)

subsection \<open>create_collider\<close>

text \<open>
  For every schema and every parameter block: where the type is valid and the mesh id
  of the block is not 0 and not in the capability set of the caller, the collider is
  created without a mesh.
\<close>

lemma create_collider_ignores_unowned_mesh:
  assumes "colliderPropsPtr + 32 \<le> byteLength (cursorView wasmCtx)"
    and "buffer (cursorView wasmCtx) colliderPropsPtr \<in> ColliderType schema"
    and "buffer (cursorView wasmCtx) (colliderPropsPtr + 28) \<noteq> 0"
    and "unat (buffer (cursorView wasmCtx) (colliderPropsPtr + 28)) \<notin> resourceIds wasmCtx"
  shows "fst (create_collider schema wasmCtx colliderPropsPtr) = Some (int (nextEid wasmCtx))
         \<and> nextEid wasmCtx \<in> resourceIds (snd (create_collider schema wasmCtx colliderPropsPtr))
         \<and> (\<exists>c. resourceMap (snd (create_collider schema wasmCtx colliderPropsPtr))
                    (nextEid wasmCtx) = Some (RCollider c) \<and> colliderMesh c = None)"
  using assms
  by (simp add: create_collider_def readColliderProps_def bindR_def unitR_def returnR_def
      moveCursorView_def readUint32_def readFloat32_def readFloat32Array_def
      createRemoteResource_def getScriptResource_unowned readUint32Array_step Let_def
      add.commute)

text \<open>
  C1. The claim: an operation that is given an id outside the capability set of the
  caller returns the error value and changes nothing. \<open>create_collider\<close> reads the
  mesh id 7 from its parameter block; the caller does not own mesh 7, the access check
  fails, and the operation goes on with no mesh: it registers the new collider 8 and
  returns its id.
\<close>

theorem create_collider_unowned_mesh:
  "7 \<notin> resourceIds colliderContext \<and>
   getScriptResource colliderContext Mesh 7 = None \<and>
   fst (create_collider exampleSchema colliderContext 0) = Some 8 \<and>
   resourceMap colliderContext 8 = None \<and>
   resourceMap (snd (create_collider exampleSchema colliderContext 0)) 8 =
     Some (RCollider \<lparr>colliderType = 0, isTrigger = False, colliderSize = [0, 0, 0],
            radius = 0, height = 0, colliderMesh = None\<rparr>) \<and>
   8 \<in> resourceIds (snd (create_collider exampleSchema colliderContext 0))"
  by (simp add: create_collider_def readColliderProps_def colliderContext_def exampleContext_def
      exampleSchema_def bindR_def unitR_def returnR_def moveCursorView_def readUint32_def
      readFloat32_def readFloat32Array_def createRemoteResource_def getScriptResource_def
      getScriptResourceLog_def readUint32Array_step)

subsection \<open>world_create_material\<close>

text \<open>
  A step that is followed by steps that all raise, and that does not end the operation
  with a result itself, raises.
\<close>

lemma bindR_throws:
  assumes "\<And>r. fst (m cv) \<noteq> Return r" and "\<And>a cv'. fst (f a cv') = Throw"
  shows "fst (bindR m f cv) = Throw"
proof (cases "m cv")
  case (Pair c cv')
  show ?thesis
  proof (cases c)
    case (Value a)
    with Pair assms(2) show ?thesis by (simp add: bindR_def)
  next
    case (Return r)
    with Pair assms(1) [of r] show ?thesis by simp
  next
    case Throw
    with Pair show ?thesis by (simp add: bindR_def)
  qed
qed

lemma bindR_throws_first:
  "fst (m cv) = Throw \<Longrightarrow> fst (bindR m f cv) = Throw"
  by (cases "m cv") (simp add: bindR_def)

lemma bindR_no_Return:
  assumes "\<And>r. fst (m cv) \<noteq> Return r" and "\<And>a cv' r. fst (f a cv') \<noteq> Return r"
  shows "fst (bindR m f cv) \<noteq> Return r"
proof (cases "m cv")
  case (Pair c cv')
  show ?thesis
  proof (cases c)
    case (Value a)
    with Pair assms(2) show ?thesis by (simp add: bindR_def)
  next
    case (Return r')
    with Pair assms(1) [of r'] show ?thesis by simp
  next
    case Throw
    with Pair show ?thesis by (simp add: bindR_def)
  qed
qed

lemma readUint32_no_Return: "fst (readUint32 cv) \<noteq> Return r"
  by (simp add: readUint32_def)

lemma skipUint32_no_Return: "fst (skipUint32 cv) \<noteq> Return r"
  by (simp add: skipUint32_def)

lemma moveCursorView_no_Return: "fst (moveCursorView p cv) \<noteq> Return r"
  by (simp add: moveCursorView_def)

lemma unitR_no_Return: "fst (unitR a cv) \<noteq> Return r"
  by (simp add: unitR_def)

lemma readUint32Array_no_Return: "fst (readUint32Array n cv) \<noteq> Return r"
proof (induction n arbitrary: cv r)
  case 0
  show ?case by (simp add: unitR_def)
next
  case (Suc n)
  show ?case
    unfolding readUint32Array.simps
    by (intro bindR_no_Return readUint32_no_Return Suc.IH unitR_no_Return)
qed

lemma readStringFromCursorView_no_Return:
  "fst (readStringFromCursorView wasmCtx cv) \<noteq> Return r"
  unfolding readStringFromCursorView_def
  by (intro bindR_no_Return readUint32_no_Return unitR_no_Return)

lemma readExtensions_loop_no_Return:
  assumes "\<And>c name cv r. fst (parseExtension c name cv) \<noteq> Return r"
  shows "fst (readExtensions_loop wasmCtx parseExtension itemsPtr n i extensions cv) \<noteq> Return r"
proof (induction n arbitrary: i extensions cv r)
  case 0
  show ?case by (simp add: unitR_def)
next
  case (Suc n)
  show ?case
    unfolding readExtensions_loop.simps
    by (intro bindR_no_Return moveCursorView_no_Return readStringFromCursorView_no_Return
        assms Suc.IH)
qed

lemma readExtensions_no_Return:
  assumes "\<And>c name cv r. fst (parseExtension c name cv) \<noteq> Return r"
  shows "fst (readExtensions wasmCtx parseExtension cv) \<noteq> Return r"
  unfolding readExtensions_def
  by (intro bindR_no_Return readUint32_no_Return readExtensions_loop_no_Return assms)

lemma readTextureInfoExtensions_no_Return:
  "fst (readTextureInfoExtensions wasmCtx cv) \<noteq> Return r"
  unfolding readTextureInfoExtensions_def
proof (rule readExtensions_no_Return)
  fix c :: WASMModuleContext and name :: string and cv r
  let ?transform =
    "bindR (readFloat32Array 2) (\<lambda>off. bindR readFloat32 (\<lambda>rot.
     bindR (readFloat32Array 2) (\<lambda>sc. bindR readUint32 (\<lambda>tc.
       unitR (Some \<lparr>offset = off, rotation = rot, scale = sc, texCoord = tc\<rparr>)))))"
  have "fst (?transform cv) \<noteq> Return r"
    unfolding readFloat32Array_def readFloat32_def
    by (intro bindR_no_Return readUint32_no_Return readUint32Array_no_Return unitR_no_Return)
  then show "fst ((if name = ''KHR_textures_transform'' then ?transform else unitR None) cv)
               \<noteq> Return r"
    by (simp add: unitR_def)
qed

lemma readTextureRef_no_Return: "fst (readTextureRef wasmCtx cv) \<noteq> Return r"
  unfolding readTextureRef_def
  by (intro bindR_no_Return readUint32_no_Return unitR_no_Return)

lemma skipExtras_no_Return: "fst (skipExtras cv) \<noteq> Return r"
  unfolding skipExtras_def
  by (intro bindR_no_Return skipUint32_no_Return)

text \<open>Every call of \<open>readTextureInfo\<close> raises.\<close>

lemma readTextureInfo_throws: "fst (readTextureInfo wasmCtx cv) = Throw"
  unfolding readTextureInfo_def
  by (intro bindR_throws readTextureRef_no_Return skipUint32_no_Return
      readTextureInfoExtensions_no_Return skipExtras_no_Return)
     (simp add: throwR_def)

lemma readMaterialProps_throws: "fst (readMaterialProps wasmCtx propsPtr cv) = Throw"
  unfolding readMaterialProps_def readFloat32Array_def
  by (intro bindR_throws moveCursorView_no_Return readUint32Array_no_Return
      bindR_throws_first readTextureInfo_throws)

text \<open>
  For every context and every parameter block, \<open>world_create_material\<close> raises: it
  returns no value, and the registry is what it was.
\<close>

lemma world_create_material_raises:
  "fst (world_create_material wasmCtx propsPtr) = None \<and>
   registry (snd (world_create_material wasmCtx propsPtr)) = registry wasmCtx"
proof (cases "readMaterialProps wasmCtx propsPtr (cursorView wasmCtx)")
  case (Pair c cv)
  with readMaterialProps_throws [of wasmCtx propsPtr "cursorView wasmCtx"]
  have "c = Throw" by simp
  with Pair show ?thesis
    by (simp add: world_create_material_def registry_def)
qed

text \<open>
  C2. The claim: for a material whose \<open>alphaMode\<close> is no known value (99),
  \<open>world_create_material\<close> returns 0 and registers no material. At the parameter block
  with the value 99 in its \<open>alphaMode\<close> field the operation registers nothing, and it
  does not return 0: it raises, as at every parameter block, in its first call of
  \<open>readTextureInfo\<close>, before it has read the field.
\<close>

theorem world_create_material_alphaMode_99_raises:
  "buffer (cursorView materialContext) 164 = 99 \<and>
   fst (world_create_material materialContext 0) = None \<and>
   registry (snd (world_create_material materialContext 0)) = registry materialContext \<and>
   registry materialContext = ({}, Map.empty, 1)"
proof -
  have "buffer (cursorView materialContext) 164 = 99"
    and "registry materialContext = ({}, Map.empty, 1)"
    by (simp_all add: materialContext_def exampleContext_def registry_def)
  with world_create_material_raises [of materialContext 0] show ?thesis by simp
qed

section \<open>Properties of the UI text\<close>

lemma ui_text_set_color_result:
  "getScriptResource wasmCtx UIText textId = Some (RUIText flex) \<Longrightarrow>
   fst (ui_text_set_color wasmCtx textId colorPtr) = Undefined"
  by (simp add: ui_text_set_color_def)

text \<open>
  C8. The claim: an operation whose result is a status returns 0 on success. On the UI
  text 4, which the caller owns, \<open>ui_text_set_color\<close> sets the color and ends without
  a result (\<open>undefined\<close>), where \<open>ui_text_set_font_size\<close> returns 0.
\<close>

theorem ui_text_set_color_no_result:
  "getScriptResource textContext UIText 4 =
     Some (RUIText \<lparr>color = [0, 0, 0, 0], fontSize = 0\<rparr>) \<and>
   fst (ui_text_set_color (textContext\<lparr>U32Heap := [1, 2, 3, 4, 0, 0, 0, 0]\<rparr>) 4 0) = Undefined \<and>
   resourceMap (snd (ui_text_set_color (textContext\<lparr>U32Heap := [1, 2, 3, 4, 0, 0, 0, 0]\<rparr>) 4 0)) 4 =
     Some (RUIText \<lparr>color = [1, 2, 3, 4], fontSize = 0\<rparr>) \<and>
   fst (ui_text_set_font_size textContext 4 0) = Number 0"
  by (simp add: ui_text_set_color_def ui_text_set_font_size_def getScriptResource_def
      getScriptResourceLog_def textContext_def exampleContext_def readFloat32ArrayInto_def)

end
